theory Spec2Isabelle
  imports Main
begin

section \<open>The session guard of noukaza/auth\<close>

text \<open>
  The embedding follows the class \<open>SessionGuard\<close> of the session guard
  (src/src/session/guard.ts, the class that starts at line 502: it is the one that
  src/guards/session/types.ts and the tests under tests/guards/session belong to).
  Every method takes the request's world and the guard's fields and returns its
  outcome together with the world and the fields as the method leaves them, so that
  what a raised exception leaves behind is part of the result.
\<close>

subsection \<open>Values\<close>

text \<open>
  User ids and the configured token age are \<open>string | number\<close> in the source, and
  the guard tests them for truthiness (\<open>if (loggedInUserId)\<close>,
  \<open>rememberMeTokenAge || '2years'\<close>).
\<close>

datatype jsval = Num int | Str string

fun truthy :: "jsval \<Rightarrow> bool" where
  "truthy (Num n) = (n \<noteq> 0)"
| "truthy (Str s) = (s \<noteq> [])"

datatype auth_code = E_INVALID_AUTH_SESSION | E_INVALID_AUTH_TOKEN

datatype runtime_error = TokensProviderMissing | SessionMissing

text \<open>
  Modelled from the spec: the exception classes of errors.ts, which is not under src/.
  \<open>AuthenticationException\<close> has the two authentication failures the spec names,
  \<open>E_INVALID_AUTH_SESSION\<close> and \<open>E_INVALID_AUTH_TOKEN\<close>. The other exceptions a method of
  the guard can end with are the \<open>RuntimeException\<close> of \<open>#getTokenProvider\<close> and
  \<open>#getSession\<close>, the \<open>TypeError\<close> of a non-null assertion that fails, and whatever a
  collaborator rejects with (a provider's I/O failure, an invalid duration).
\<close>

datatype exception =
    AuthenticationException auth_code
  | RuntimeException runtime_error
  | TypeError
  | CollaboratorError string

fun instanceofAuthenticationException :: "exception \<Rightarrow> bool" where
  "instanceofAuthenticationException (AuthenticationException _) = True"
| "instanceofAuthenticationException _ = False"

subsection \<open>The remember-me token\<close>

text \<open>
  \<open>tokenValue\<close> is the field \<open>value\<close> of the source: the transportable string the guard
  writes into the cookie (\<open>token.value!.release()\<close>), present only on a token that was
  just created or refreshed. Instants are milliseconds, as a \<open>Date\<close> compares.
\<close>

record token =
  series :: string
  tokenValue :: "string option"
  hash :: string
  userId :: jsval
  guard :: string
  expiresAt :: int
  createdAt :: int
  updatedAt :: int

subsection \<open>The request's world\<close>

record session =
  sessionId :: nat
  sessionData :: "string \<rightharpoonup> jsval"

record 'u provider_user =
  getId :: jsval
  getOriginal :: 'u

record 'u guard_fields =
  name :: string
  rememberMeTokenAge :: "jsval option"
  rememberMeTokenProvider :: bool
  authenticationAttempted :: bool
  isLoggedOut :: bool
  isAuthenticated :: bool
  viaRemember :: bool
  user :: "'u option"

datatype 'u event =
    LoginAttempted 'u
  | LoginSucceeded 'u nat "token option"
  | AuthenticationAttempted nat
  | AuthenticationSucceeded nat 'u "token option"
  | AuthenticationFailed exception nat
  | LoggedOut "'u option" nat

text \<open>
  What a method does to its collaborators, in program order. An emitted event is
  logged with the guard's fields as they stand at the call of \<open>emit\<close>.
\<close>

datatype 'u effect =
    SessionGet string
  | SessionPut string jsval
  | SessionRegenerate
  | SessionForget string
  | FindById jsval
  | CreateUserForGuard 'u
  | ReadCookie string
  | GetTokenBySeries string
  | CreateToken token
  | UpdateTokenBySeries string token
  | DeleteTokenBySeries string
  | SetCookie string string jsval
  | ClearCookie string
  | Emit "'u event" "'u guard_fields"

text \<open>
  The collaborators that are parameters of the guard: the user provider (the type
  parameter \<open>UserProvider\<close>), the digest and the duration parser the token class uses,
  and the random source. A provider call that rejects is \<open>Inl\<close> of its message.
  The host is a parameter too: \<open>localTime\<close> and \<open>utc\<close> are the conversions \<open>LocalTime\<close>
  and \<open>UTC\<close> of its time zone, on which the local-time methods of a \<open>Date\<close> rest, and
  \<open>userTruthy\<close> says which values of the user type are truthy (\<open>!this.user\<close>,
  \<open>this.user || null\<close>).
\<close>

record 'u env =
  findById :: "jsval \<Rightarrow> string + 'u provider_user option"
  createUserForGuard :: "'u \<Rightarrow> string + 'u provider_user"
  digest :: "string \<Rightarrow> string"
  parseAge :: "jsval \<Rightarrow> int option"
  random :: "nat \<Rightarrow> string"
  localTime :: "int \<Rightarrow> int"
  utc :: "int \<Rightarrow> int"
  userTruthy :: "'u \<Rightarrow> bool"

record 'u world =
  session :: "session option"
  requestCookies :: "string \<rightharpoonup> string"
  tokens :: "token list"
  now :: int
  drawn :: nat
  trace :: "'u effect list"

type_synonym ('u, 'r) outcome = "(exception + 'r) \<times> 'u world \<times> 'u guard_fields"

definition logEffect :: "'u effect \<Rightarrow> 'u world \<Rightarrow> 'u world" where
  "logEffect e w = w\<lparr>trace := trace w @ [e]\<rparr>"

definition emit :: "'u event \<Rightarrow> 'u guard_fields \<Rightarrow> 'u world \<Rightarrow> 'u world" where
  "emit ev g w = logEffect (Emit ev g) w"

subsection \<open>Dates\<close>

text \<open>
  \<open>Date.prototype.getSeconds\<close> and \<open>setSeconds\<close> on an instant in milliseconds. Both work
  on the local time of the host: \<open>getSeconds\<close> is the seconds field of the local time,
  and \<open>setSeconds\<close> replaces that field, seconds beyond 59 carrying over, and converts
  the local time back. The range limit of a \<open>Date\<close> is left out: the instants of a
  token are far inside it.
\<close>

definition getSeconds :: "'u env \<Rightarrow> int \<Rightarrow> int" where
  "getSeconds env d = (localTime env d div 1000) mod 60"

definition setSeconds :: "'u env \<Rightarrow> int \<Rightarrow> int \<Rightarrow> int" where
  "setSeconds env d sec =
     (let t = localTime env d
      in utc env (t - ((t div 1000) mod 60) * 1000 + sec * 1000))"

subsection \<open>The session\<close>

text \<open>
  Modelled from the spec: the session abstraction of the package @adonisjs/session,
  which is not under src/. \<open>get\<close>, \<open>put\<close> and \<open>forget\<close> read and write a key/value
  store; \<open>regenerate\<close> rotates the session identifier and keeps the data.
\<close>

definition sessionIdOf :: "'u world \<Rightarrow> nat" where
  "sessionIdOf w = (case session w of None \<Rightarrow> 0 | Some s \<Rightarrow> sessionId s)"

definition sessionGet :: "string \<Rightarrow> 'u world \<Rightarrow> jsval option \<times> 'u world" where
  "sessionGet k w =
     ((case session w of None \<Rightarrow> None | Some s \<Rightarrow> sessionData s k),
      logEffect (SessionGet k) w)"

definition sessionPut :: "string \<Rightarrow> jsval \<Rightarrow> 'u world \<Rightarrow> 'u world" where
  "sessionPut k v w =
     logEffect (SessionPut k v)
       (w\<lparr>session := map_option (\<lambda>s. s\<lparr>sessionData := (sessionData s)(k \<mapsto> v)\<rparr>) (session w)\<rparr>)"

definition sessionForget :: "string \<Rightarrow> 'u world \<Rightarrow> 'u world" where
  "sessionForget k w =
     logEffect (SessionForget k)
       (w\<lparr>session := map_option (\<lambda>s. s\<lparr>sessionData := (sessionData s)(k := None)\<rparr>) (session w)\<rparr>)"

definition sessionRegenerate :: "'u world \<Rightarrow> 'u world" where
  "sessionRegenerate w =
     logEffect SessionRegenerate
       (w\<lparr>session := map_option (\<lambda>s. s\<lparr>sessionId := Suc (sessionId s)\<rparr>) (session w)\<rparr>)"

subsection \<open>Cookies\<close>

text \<open>
  Modelled from the spec: the cookie interface of the HTTP context, which is not under
  src/. The request side decrypts a cookie or yields undefined; the response side
  records what it is asked to set or clear.
\<close>

definition encryptedCookie :: "string \<Rightarrow> 'u world \<Rightarrow> string option \<times> 'u world" where
  "encryptedCookie k w = (requestCookies w k, logEffect (ReadCookie k) w)"

definition setEncryptedCookie :: "string \<Rightarrow> string \<Rightarrow> jsval \<Rightarrow> 'u world \<Rightarrow> 'u world" where
  "setEncryptedCookie k v maxAge w = logEffect (SetCookie k v maxAge) w"

definition clearCookie :: "string \<Rightarrow> 'u world \<Rightarrow> 'u world" where
  "clearCookie k w = logEffect (ClearCookie k) w"

subsection \<open>RememberMeToken\<close>

text \<open>
  Modelled from the spec: the class \<open>RememberMeToken\<close> (remember_me_token.ts), which is
  not under src/. The cookie is the two-part string \<open>series.value\<close>; \<open>decode\<close> splits it
  at the first separator and yields null when a part is missing or the series is not
  in series format (here: not empty, no separator inside).
\<close>

definition validSeries :: "string \<Rightarrow> bool" where
  "validSeries s = (s \<noteq> [] \<and> CHR ''.'' \<notin> set s)"

definition encode :: "string \<Rightarrow> string \<Rightarrow> string" where
  "encode s v = s @ CHR ''.'' # v"

definition decode :: "string \<Rightarrow> (string \<times> string) option" where
  "decode c =
     (let s = takeWhile (\<lambda>x. x \<noteq> CHR ''.'') c;
          r = dropWhile (\<lambda>x. x \<noteq> CHR ''.'') c
      in case r of
           [] \<Rightarrow> None
         | _ # v \<Rightarrow> if s = [] \<or> v = [] then None else Some (s, v))"

text \<open>
  Modelled from the spec: \<open>verify\<close> compares the digest of the presented value with the
  stored hash.
\<close>

definition verify :: "'u env \<Rightarrow> token \<Rightarrow> string \<Rightarrow> bool" where
  "verify env t presented = (digest env presented = hash t)"

definition draw :: "'u env \<Rightarrow> 'u world \<Rightarrow> string \<times> 'u world" where
  "draw env w = (random env (drawn w), w\<lparr>drawn := Suc (drawn w)\<rparr>)"

text \<open>
  Modelled from the spec: \<open>create\<close> draws a series and a secret, hashes the secret and
  sets \<open>createdAt = updatedAt = now\<close>, \<open>expiresAt = now + ttl\<close>; it rejects a duration
  that does not parse.
\<close>

definition create :: "'u env \<Rightarrow> jsval \<Rightarrow> jsval \<Rightarrow> string \<Rightarrow> 'u world \<Rightarrow>
    (exception + token) \<times> 'u world" where
  "create env uid ttl guardName w =
     (case parseAge env ttl of
        None \<Rightarrow> (Inl (CollaboratorError ''invalid duration''), w)
      | Some ms \<Rightarrow>
          let (s, w1) = draw env w;
              (v, w2) = draw env w1
          in (Inr \<lparr>series = s, tokenValue = Some (encode s v), hash = digest env v,
                   userId = uid, guard = guardName, expiresAt = now w + ms,
                   createdAt = now w, updatedAt = now w\<rparr>, w2))"

text \<open>
  Modelled from the spec: \<open>refresh\<close> regenerates the value and the hash, recomputes
  \<open>expiresAt\<close> and bumps \<open>updatedAt\<close>; the series is preserved.
\<close>

definition refresh :: "'u env \<Rightarrow> jsval \<Rightarrow> token \<Rightarrow> 'u world \<Rightarrow>
    (exception + token) \<times> 'u world" where
  "refresh env ttl t w =
     (case parseAge env ttl of
        None \<Rightarrow> (Inl (CollaboratorError ''invalid duration''), w)
      | Some ms \<Rightarrow>
          let (v, w1) = draw env w
          in (Inr (t\<lparr>tokenValue := Some (encode (series t) v), hash := digest env v,
                      expiresAt := now w + ms, updatedAt := now w\<rparr>), w1))"

subsection \<open>The token provider\<close>

text \<open>
  Modelled from the spec: the token-persistence provider (token_providers/database.ts),
  which is not under src/: a table of rows \<open>(series, user_id, guard, hash, created_at,
  updated_at, expires_at)\<close> looked up by series. A row never holds the value. The guard
  compares no expiry itself, and a token is valid only while \<open>now < expiresAt\<close>, so the
  lookup yields null for a row that is missing or expired.
\<close>

definition row :: "token \<Rightarrow> token" where
  "row t = t\<lparr>tokenValue := None\<rparr>"

definition findRow :: "string \<Rightarrow> token list \<Rightarrow> token option" where
  "findRow s rows = find (\<lambda>r. series r = s) rows"

definition isExpired :: "'u world \<Rightarrow> token \<Rightarrow> bool" where
  "isExpired w t = (\<not> now w < expiresAt t)"

definition getTokenBySeries :: "string \<Rightarrow> 'u world \<Rightarrow> token option \<times> 'u world" where
  "getTokenBySeries s w =
     ((case findRow s (tokens w) of
         None \<Rightarrow> None
       | Some t \<Rightarrow> if isExpired w t then None else Some t),
      logEffect (GetTokenBySeries s) w)"

definition createToken :: "token \<Rightarrow> 'u world \<Rightarrow> 'u world" where
  "createToken t w = logEffect (CreateToken t) (w\<lparr>tokens := tokens w @ [row t]\<rparr>)"

definition updateRow :: "string \<Rightarrow> token \<Rightarrow> token \<Rightarrow> token" where
  "updateRow s t r =
     (if series r = s
      then r\<lparr>hash := hash t, expiresAt := expiresAt t, updatedAt := updatedAt t\<rparr>
      else r)"

definition updateTokenBySeries :: "string \<Rightarrow> token \<Rightarrow> 'u world \<Rightarrow> 'u world" where
  "updateTokenBySeries s t w =
     logEffect (UpdateTokenBySeries s t) (w\<lparr>tokens := map (updateRow s t) (tokens w)\<rparr>)"

definition deleteTokenBySeries :: "string \<Rightarrow> 'u world \<Rightarrow> 'u world" where
  "deleteTokenBySeries s w =
     logEffect (DeleteTokenBySeries s) (w\<lparr>tokens := filter (\<lambda>r. series r \<noteq> s) (tokens w)\<rparr>)"

subsection \<open>SessionGuard\<close>

definition sessionKeyName :: "'u guard_fields \<Rightarrow> string" where
  "sessionKeyName g = ''auth_'' @ name g"

definition rememberMeKeyName :: "'u guard_fields \<Rightarrow> string" where
  "rememberMeKeyName g = ''remember_'' @ name g"

text \<open>\<open>this.#config.rememberMeTokenAge || '2years'\<close> (lines 788 and 997).\<close>

definition tokenAge :: "'u guard_fields \<Rightarrow> jsval" where
  "tokenAge g =
     (case rememberMeTokenAge g of
        None \<Rightarrow> Str ''2years''
      | Some a \<Rightarrow> if truthy a then a else Str ''2years'')"

definition getTokenProvider :: "'u guard_fields \<Rightarrow> exception + unit" where
  "getTokenProvider g =
     (if \<not> rememberMeTokenProvider g then Inl (RuntimeException TokensProviderMissing)
      else Inr ())"

definition getSession :: "'u world \<Rightarrow> exception + session" where
  "getSession w =
     (case session w of
        None \<Rightarrow> Inl (RuntimeException SessionMissing)
      | Some s \<Rightarrow> Inr s)"

definition authenticationFailed :: "exception \<Rightarrow> nat \<Rightarrow> 'u world \<Rightarrow> 'u guard_fields \<Rightarrow>
    ('u, 'r) outcome" where
  "authenticationFailed error sid w g = (Inl error, emit (AuthenticationFailed error sid) g w, g)"

text \<open>\<open>this.user\<close> where the source tests it: undefined and a falsy user count as none.\<close>

definition truthyUser :: "'u env \<Rightarrow> 'u guard_fields \<Rightarrow> 'u option" where
  "truthyUser env g =
     (case user g of
        None \<Rightarrow> None
      | Some u \<Rightarrow> if userTruthy env u then Some u else None)"

definition getUserOrFail :: "'u env \<Rightarrow> 'u guard_fields \<Rightarrow> exception + 'u" where
  "getUserOrFail env g =
     (case truthyUser env g of
        None \<Rightarrow> Inl (AuthenticationException E_INVALID_AUTH_SESSION)
      | Some u \<Rightarrow> Inr u)"

text \<open>\<open>login\<close>, lines 812 to 829: the fields and the event of a login that went through.\<close>

definition loginSucceeded :: "'u \<Rightarrow> token option \<Rightarrow> 'u world \<Rightarrow> 'u guard_fields \<Rightarrow>
    ('u, 'u) outcome" where
  "loginSucceeded u tok w g =
     (let g' = g\<lparr>user := Some u, isLoggedOut := False\<rparr>
      in (Inr u, emit (LoginSucceeded u (sessionIdOf w) tok) g' w, g'))"

definition login :: "'u env \<Rightarrow> 'u \<Rightarrow> bool \<Rightarrow> 'u world \<Rightarrow> 'u guard_fields \<Rightarrow>
    ('u, 'u) outcome" where
  "login env u remember w g =
     (let w1 = logEffect (CreateUserForGuard u) (emit (LoginAttempted u) g w)
      in case createUserForGuard env u of
           Inl msg \<Rightarrow> (Inl (CollaboratorError msg), w1, g)
         | Inr providerUser \<Rightarrow>
             (case getSession w1 of
                Inl e \<Rightarrow> (Inl e, w1, g)
              | Inr _ \<Rightarrow>
                  let userId = getId providerUser;
                      w2 = sessionRegenerate (sessionPut (sessionKeyName g) userId w1)
                  in if remember then
                       (case getTokenProvider g of
                          Inl e \<Rightarrow> (Inl e, w2, g)
                        | Inr _ \<Rightarrow>
                            (case create env (getId providerUser) (tokenAge g) (name g) w2 of
                               (Inl e, w3) \<Rightarrow> (Inl e, w3, g)
                             | (Inr t, w3) \<Rightarrow>
                                 (case tokenValue t of
                                    None \<Rightarrow> (Inl TypeError, createToken t w3, g)
                                  | Some v \<Rightarrow>
                                      loginSucceeded u (Some t)
                                        (setEncryptedCookie (rememberMeKeyName g) v (tokenAge g)
                                           (createToken t w3)) g)))
                     else loginSucceeded u None (clearCookie (rememberMeKeyName g) w2) g))"

text \<open>\<open>authenticate\<close>, lines 859 to 891: a user id is in the session.\<close>

definition authenticateViaSession :: "'u env \<Rightarrow> jsval \<Rightarrow> 'u world \<Rightarrow> 'u guard_fields \<Rightarrow>
    ('u, 'u) outcome" where
  "authenticateViaSession env loggedInUserId w g =
     (let w1 = logEffect (FindById loggedInUserId) w
      in case findById env loggedInUserId of
           Inl msg \<Rightarrow> (Inl (CollaboratorError msg), w1, g)
         | Inr None \<Rightarrow>
             authenticationFailed (AuthenticationException E_INVALID_AUTH_SESSION)
               (sessionIdOf w1) w1 g
         | Inr (Some providerUser) \<Rightarrow>
             let g' = g\<lparr>user := Some (getOriginal providerUser), isAuthenticated := True,
                        isLoggedOut := False, viaRemember := False\<rparr>
             in (Inr (getOriginal providerUser),
                 emit (AuthenticationSucceeded (sessionIdOf w1) (getOriginal providerUser) None)
                   g' w1,
                 g'))"

text \<open>
  \<open>authenticate\<close>, lines 996 to 1019: the token is refreshed when \<open>updatedAt\<close>, moved on
  by \<open>setSeconds(getSeconds() + 60)\<close>, lies before the current time, and the cookie is
  set again in both cases.
\<close>

definition recycle :: "'u env \<Rightarrow> 'u \<Rightarrow> token \<Rightarrow> string \<Rightarrow> 'u world \<Rightarrow> 'u guard_fields \<Rightarrow>
    ('u, 'u) outcome" where
  "recycle env u t rememberMeCookie w g =
     (let currentTime = now w;
          age = tokenAge g;
          updatedAtWithBuffer = setSeconds env (updatedAt t) (getSeconds env (updatedAt t) + 60)
      in if updatedAtWithBuffer < currentTime then
           (case refresh env age t w of
              (Inl e, w1) \<Rightarrow> (Inl e, w1, g)
            | (Inr t', w1) \<Rightarrow>
                let w2 = updateTokenBySeries (series t') t' w1
                in (case tokenValue t' of
                      None \<Rightarrow> (Inl TypeError, w2, g)
                    | Some v \<Rightarrow> (Inr u, setEncryptedCookie (rememberMeKeyName g) v age w2, g)))
         else (Inr u, setEncryptedCookie (rememberMeKeyName g) rememberMeCookie age w, g))"

text \<open>
  \<open>authenticate\<close>, lines 906 to 995: no user id is in the session. In
  \<open>!rememberMeCookie\<close> both undefined and the empty string are falsy.
\<close>

definition authenticateViaRemember :: "'u env \<Rightarrow> 'u world \<Rightarrow> 'u guard_fields \<Rightarrow>
    ('u, 'u) outcome" where
  "authenticateViaRemember env w g =
     (let failure = AuthenticationException E_INVALID_AUTH_SESSION;
          (rememberMeCookie, w1) = encryptedCookie (rememberMeKeyName g) w
      in case rememberMeCookie of
           None \<Rightarrow> authenticationFailed failure (sessionIdOf w1) w1 g
         | Some cookie \<Rightarrow>
             if cookie = [] \<or> \<not> rememberMeTokenProvider g then
               authenticationFailed failure (sessionIdOf w1) w1 g
             else
               (case decode cookie of
                  None \<Rightarrow> authenticationFailed failure (sessionIdOf w1) w1 g
                | Some (decodedSeries, decodedValue) \<Rightarrow>
                    (case getTokenBySeries decodedSeries w1 of
                       (None, w2) \<Rightarrow> authenticationFailed failure (sessionIdOf w2) w2 g
                     | (Some t, w2) \<Rightarrow>
                         if \<not> verify env t decodedValue \<or> guard t \<noteq> name g then
                           authenticationFailed failure (sessionIdOf w2) w2 g
                         else
                           let w3 = logEffect (FindById (userId t)) w2
                           in (case findById env (userId t) of
                                 Inl msg \<Rightarrow> (Inl (CollaboratorError msg), w3, g)
                               | Inr None \<Rightarrow>
                                   authenticationFailed failure (sessionIdOf w3) w3 g
                               | Inr (Some providerUser) \<Rightarrow>
                                   let uid = getId providerUser;
                                       w4 = sessionRegenerate
                                              (sessionPut (sessionKeyName g) uid w3);
                                       g' = g\<lparr>user := Some (getOriginal providerUser),
                                               isAuthenticated := True, isLoggedOut := False,
                                               viaRemember := True\<rparr>;
                                       w5 = emit (AuthenticationSucceeded (sessionIdOf w4)
                                                    (getOriginal providerUser) (Some t)) g' w4
                                   in recycle env (getOriginal providerUser) t cookie w5 g'))))"

text \<open>\<open>authenticate\<close>, lines 836 to 1020.\<close>

definition authenticate :: "'u env \<Rightarrow> 'u world \<Rightarrow> 'u guard_fields \<Rightarrow> ('u, 'u) outcome" where
  "authenticate env w g =
     (if authenticationAttempted g then (getUserOrFail env g, w, g)
      else
        let g1 = g\<lparr>authenticationAttempted := True\<rparr>
        in case getSession w of
             Inl e \<Rightarrow> (Inl e, w, g1)
           | Inr _ \<Rightarrow>
               let w1 = emit (AuthenticationAttempted (sessionIdOf w)) g1 w;
                   (loggedInUserId, w2) = sessionGet (sessionKeyName g1) w1
               in case loggedInUserId of
                    None \<Rightarrow> authenticateViaRemember env w2 g1
                  | Some uid \<Rightarrow>
                      if truthy uid then authenticateViaSession env uid w2 g1
                      else authenticateViaRemember env w2 g1)"

text \<open>\<open>check\<close>, lines 1028 to 1039.\<close>

definition check :: "'u env \<Rightarrow> 'u world \<Rightarrow> 'u guard_fields \<Rightarrow> ('u, bool) outcome" where
  "check env w g =
     (case authenticate env w g of
        (Inr _, w', g') \<Rightarrow> (Inr True, w', g')
      | (Inl error, w', g') \<Rightarrow>
          if instanceofAuthenticationException error then (Inr False, w', g')
          else (Inl error, w', g'))"

text \<open>\<open>logout\<close>, lines 1044 to 1077.\<close>

definition logout :: "'u env \<Rightarrow> 'u world \<Rightarrow> 'u guard_fields \<Rightarrow> ('u, unit) outcome" where
  "logout env w g =
     (case getSession w of
        Inl e \<Rightarrow> (Inl e, w, g)
      | Inr _ \<Rightarrow>
          let w1 = sessionForget (sessionKeyName g) w;
              w2 = clearCookie (rememberMeKeyName g) w1;
              w3 = emit (LoggedOut (truthyUser env g) (sessionIdOf w2)) g w2;
              (rememberMeCookie, w4) = encryptedCookie (rememberMeKeyName g) w3
          in case rememberMeCookie of
               None \<Rightarrow> (Inr (), w4, g)
             | Some cookie \<Rightarrow>
                 if cookie = [] \<or> \<not> rememberMeTokenProvider g then (Inr (), w4, g)
                 else
                   (case decode cookie of
                      None \<Rightarrow> (Inr (), w4, g)
                    | Some (decodedSeries, _) \<Rightarrow>
                        (Inr (), deleteTokenBySeries decodedSeries w4, g)))"

subsection \<open>What a first call finds\<close>

text \<open>
  The user id that \<open>if (loggedInUserId)\<close> (line 859) accepts: the value stored in the
  session under \<open>auth_<name>\<close>, when it is truthy.
\<close>

definition loggedInUserId :: "'u world \<Rightarrow> 'u guard_fields \<Rightarrow> jsval option" where
  "loggedInUserId w g =
     (case session w of
        None \<Rightarrow> None
      | Some s \<Rightarrow>
          (case sessionData s (sessionKeyName g) of
             None \<Rightarrow> None
           | Some i \<Rightarrow> if truthy i then Some i else None))"



subsection \<open>A concrete request\<close>

text \<open>
  A guard named web, on a host whose zone is UTC, over a user provider that knows the
  user with id 1, rejects the lookup of id 500 and knows nobody else; a request whose
  cookie \<open>remember_web\<close> is \<open>s1.v1\<close>, and a token table with the row of series \<open>s1\<close>.
\<close>

definition env0 :: "string env" where
  "env0 = \<lparr>findById = (\<lambda>i. if i = Num 1 then Inr (Some \<lparr>getId = Num 1, getOriginal = ''alice''\<rparr>)
                             else if i = Num 500 then Inl ''connection lost'' else Inr None),
           createUserForGuard = (\<lambda>u. Inr \<lparr>getId = Num 1, getOriginal = u\<rparr>),
           digest = rev,
           parseAge = (\<lambda>a. case a of Num n \<Rightarrow> Some (n * 1000)
                           | Str s \<Rightarrow> if s = ''2years'' then Some 63072000000 else None),
           random = (\<lambda>n. replicate (Suc n) CHR ''r''),
           localTime = (\<lambda>t. t), utc = (\<lambda>t. t),
           userTruthy = (\<lambda>u. u \<noteq> [])\<rparr>"

definition web :: "string guard_fields" where
  "web = \<lparr>name = ''web'', rememberMeTokenAge = None, rememberMeTokenProvider = True,
          authenticationAttempted = False, isLoggedOut = False, isAuthenticated = False,
          viaRemember = False, user = None\<rparr>"

definition tok0 :: token where
  "tok0 = \<lparr>series = ''s1'', tokenValue = None, hash = ''1v'', userId = Num 1, guard = ''web'',
           expiresAt = 1000000, createdAt = 0, updatedAt = 0\<rparr>"

definition world0 :: "string world" where
  "world0 = \<lparr>session = Some \<lparr>sessionId = 7, sessionData = Map.empty\<rparr>,
             requestCookies = [''remember_web'' \<mapsto> ''s1.v1''],
             tokens = [tok0], now = 30000, drawn = 0, trace = []\<rparr>"

text \<open>
  The same guard on a host in the zone America/New_York, as the zone stands from March
  2023 to March 2024: daylight time (UTC-4) ends on 2023-11-05 at 06:00:00 UTC, and a
  local time that occurs twice or lies before 02:00 of that day is read as daylight
  time. \<open>tokNY1\<close> was updated at 06:30:00 UTC of that day and is presented 30 seconds
  later; \<open>tokNY2\<close> was updated at 05:59:30 UTC and is presented 61 seconds later.
\<close>

definition envNY :: "string env" where
  "envNY = env0\<lparr>localTime := (\<lambda>t. if t < 1699164000000 then t - 14400000 else t - 18000000),
                utc := (\<lambda>l. if l < 1699149600000 then l + 14400000 else l + 18000000)\<rparr>"

definition tokNY1 :: token where
  "tokNY1 = tok0\<lparr>expiresAt := 2000000000000, createdAt := 1699165800000,
                 updatedAt := 1699165800000\<rparr>"

definition worldNY1 :: "string world" where
  "worldNY1 = world0\<lparr>tokens := [tokNY1], now := 1699165830000\<rparr>"

definition tokNY2 :: token where
  "tokNY2 = tok0\<lparr>expiresAt := 2000000000000, createdAt := 1699163970000,
                 updatedAt := 1699163970000\<rparr>"

definition worldNY2 :: "string world" where
  "worldNY2 = world0\<lparr>tokens := [tokNY2], now := 1699164031000\<rparr>"

section \<open>Properties\<close>

subsection \<open>Projections and the phases of authenticate\<close>

lemma logEffect_proj [simp]:
  "session (logEffect e w) = session w"
  "requestCookies (logEffect e w) = requestCookies w"
  "tokens (logEffect e w) = tokens w"
  "now (logEffect e w) = now w"
  "drawn (logEffect e w) = drawn w"
  "trace (logEffect e w) = trace w @ [e]"
  by (simp_all add: logEffect_def)

lemma isExpired_logEffect [simp]: "isExpired (logEffect e w) t = isExpired w t"
  by (simp add: isExpired_def)

lemma sessionIdOf_logEffect [simp]: "sessionIdOf (logEffect e w) = sessionIdOf w"
  by (simp add: sessionIdOf_def)

lemma recycle_cases:
  "recycle env u t c w g = (r, w', g') \<Longrightarrow>
     g' = g \<and> (r = Inr u \<or> (\<exists>e. r = Inl e \<and> \<not> instanceofAuthenticationException e))"
  by (auto simp: recycle_def refresh_def Let_def split: prod.splits sum.splits option.splits if_splits)

lemma viaSession_cases:
  "authenticateViaSession env i w g = (r, w', g') \<Longrightarrow>
     (case r of Inr u \<Rightarrow> user g' = Some u \<and> authenticationAttempted g' = authenticationAttempted g
        \<and> \<not> viaRemember g'
      | Inl e \<Rightarrow> g' = g)"
  by (auto simp: authenticateViaSession_def authenticationFailed_def Let_def
      split: sum.splits option.splits)

lemma viaRemember_success:
  assumes "requestCookies w (rememberMeKeyName g) = Some c" "c \<noteq> []" "rememberMeTokenProvider g"
    "decode c = Some (sr, v)" "findRow sr (tokens w) = Some t" "\<not> isExpired w t"
    "verify env t v" "guard t = name g" "findById env (userId t) = Inr (Some pu)"
  shows "authenticateViaRemember env w g =
      (let w4 = sessionRegenerate (sessionPut (sessionKeyName g) (getId pu)
              (logEffect (FindById (userId t)) (logEffect (GetTokenBySeries sr)
                 (logEffect (ReadCookie (rememberMeKeyName g)) w))));
           g' = g\<lparr>user := Some (getOriginal pu), isAuthenticated := True, isLoggedOut := False,
                             viaRemember := True\<rparr>
       in recycle env (getOriginal pu) t c
        (emit (AuthenticationSucceeded (sessionIdOf w4) (getOriginal pu) (Some t)) g' w4) g')"
  using assms
  by (simp add: authenticateViaRemember_def Let_def encryptedCookie_def getTokenBySeries_def)

lemma viaRemember_inversion:
  assumes "authenticateViaRemember env w g = (Inr u, w', g')"
  shows "\<exists>c sr v t pu. requestCookies w (rememberMeKeyName g) = Some c \<and> c \<noteq> [] \<and>
      rememberMeTokenProvider g \<and> decode c = Some (sr, v) \<and> findRow sr (tokens w) = Some t \<and>
      \<not> isExpired w t \<and> verify env t v \<and> guard t = name g \<and>
      findById env (userId t) = Inr (Some pu) \<and> u = getOriginal pu"
  using assms
  apply (simp add: authenticateViaRemember_def authenticationFailed_def Let_def encryptedCookie_def getTokenBySeries_def
       split: option.splits if_splits prod.splits sum.splits)
  apply (auto dest: recycle_cases)
  done

lemma viaRemember_fields:
  "authenticateViaRemember env w g = (r, w', g') \<Longrightarrow>
     authenticationAttempted g' = authenticationAttempted g \<and>
     (case r of Inr u \<Rightarrow> g' = g\<lparr>user := Some u, isAuthenticated := True, isLoggedOut := False,
                             viaRemember := True\<rparr>
      | Inl e \<Rightarrow> instanceofAuthenticationException e \<longrightarrow> g' = g)"
  apply (simp add: authenticateViaRemember_def authenticationFailed_def Let_def encryptedCookie_def getTokenBySeries_def
       split: option.splits if_splits prod.splits sum.splits)
  apply (auto dest: recycle_cases)
  done


lemmas fixtures = env0_def web_def tok0_def world0_def

lemma setSeconds_getSeconds:
  "setSeconds env d (getSeconds env d + 60) = utc env (localTime env d + 60 * 1000)"
  by (simp add: setSeconds_def getSeconds_def Let_def algebra_simps)


lemmas guard_defs = authenticate_def authenticateViaSession_def authenticateViaRemember_def
  recycle_def authenticationFailed_def getUserOrFail_def truthyUser_def getSession_def
  getTokenProvider_def
  check_def login_def loginSucceeded_def logout_def sessionKeyName_def rememberMeKeyName_def
  tokenAge_def

lemmas world_defs = logEffect_def emit_def sessionIdOf_def sessionGet_def sessionPut_def
  sessionForget_def sessionRegenerate_def encryptedCookie_def setEncryptedCookie_def
  clearCookie_def getTokenBySeries_def createToken_def updateTokenBySeries_def
  deleteTokenBySeries_def draw_def findRow_def isExpired_def updateRow_def row_def
  refresh_def create_def verify_def decode_def encode_def setSeconds_def getSeconds_def

lemma authenticate_first:
  assumes "\<not> authenticationAttempted g" "session w = Some s"
  shows "authenticate env w g =
     (let g1 = g\<lparr>authenticationAttempted := True\<rparr>;
          w2 = logEffect (SessionGet (sessionKeyName g))
                 (emit (AuthenticationAttempted (sessionId s)) g1 w)
      in case loggedInUserId w g of
           None \<Rightarrow> authenticateViaRemember env w2 g1
         | Some i \<Rightarrow> authenticateViaSession env i w2 g1)"
  using assms
  by (simp add: authenticate_def getSession_def Let_def sessionGet_def emit_def sessionIdOf_def
      loggedInUserId_def sessionKeyName_def split: option.splits)

lemma authenticate_fields:
  assumes "\<not> authenticationAttempted g" "authenticate env w g = (r, w', g')"
  shows "authenticationAttempted g' \<and>
     (case r of Inr u \<Rightarrow> user g' = Some u
      | Inl e \<Rightarrow> instanceofAuthenticationException e \<longrightarrow> user g' = user g)"
proof (cases "session w")
  case None
  with assms show ?thesis
    by (auto simp: authenticate_def getSession_def Let_def)
next
  case (Some s)
  show ?thesis
  proof (cases "loggedInUserId w g")
    case None
    with assms Some show ?thesis
      by (auto simp: authenticate_first Let_def dest!: viaRemember_fields split: sum.splits)
  next
    case (Some i)
    with assms \<open>session w = Some s\<close> show ?thesis
      by (auto simp: authenticate_first Let_def dest!: viaSession_cases split: sum.splits)
  qed
qed

subsection \<open>Repeated calls\<close>

text \<open>
  C4 (as amended). Once \<open>authenticationAttempted\<close> is true, \<open>authenticate\<close> reads no
  session and calls no provider: it leaves the world, its log of effects included, and
  the guard's fields as they are, and returns \<open>getUserOrFail\<close>, that is the user when
  one is set and a new \<open>E_INVALID_AUTH_SESSION\<close> otherwise. For a guard that started
  without a user, a call that returned a user or failed with \<open>E_INVALID_AUTH_SESSION\<close>
  leaves the guard attempted, and every later call, in whatever state the world is by
  then, repeats that outcome. A first call that ended in any other exception leaves
  the guard attempted as well, and no later call ends in that exception: it returns
  \<open>getUserOrFail\<close> of the fields the first call left.
\<close>

theorem authenticate_once_attempted:
  "(authenticationAttempted g \<longrightarrow> authenticate env w g = (getUserOrFail env g, w, g)) \<and>
   (user g = None \<and> authenticate env w g = (r, w', g') \<and>
      (r = Inr u \<and> userTruthy env2 u \<or>
       r = Inl (AuthenticationException E_INVALID_AUTH_SESSION))
    \<longrightarrow> authenticationAttempted g' \<and> authenticate env2 w2 g' = (r, w2, g')) \<and>
   (\<not> authenticationAttempted g \<and> authenticate env w g = (Inl e, w', g') \<and>
      \<not> instanceofAuthenticationException e
    \<longrightarrow> authenticationAttempted g' \<and>
        authenticate env2 w2 g' = (getUserOrFail env2 g', w2, g') \<and>
        fst (authenticate env2 w2 g') \<noteq> Inl e)"
proof (intro conjI impI)
  assume "authenticationAttempted g"
  then show "authenticate env w g = (getUserOrFail env g, w, g)"
    by (simp add: authenticate_def)
next
  assume a: "user g = None \<and> authenticate env w g = (r, w', g') \<and>
      (r = Inr u \<and> userTruthy env2 u \<or>
       r = Inl (AuthenticationException E_INVALID_AUTH_SESSION))"
  show "authenticationAttempted g'"
  proof (cases "authenticationAttempted g")
    case True
    with a show ?thesis by (simp add: authenticate_def)
  next
    case False
    with a authenticate_fields [of g env w r w' g'] show ?thesis by simp
  qed
next
  assume a: "user g = None \<and> authenticate env w g = (r, w', g') \<and>
      (r = Inr u \<and> userTruthy env2 u \<or>
       r = Inl (AuthenticationException E_INVALID_AUTH_SESSION))"
  show "authenticate env2 w2 g' = (r, w2, g')"
  proof (cases "authenticationAttempted g")
    case True
    with a show ?thesis by (auto simp: authenticate_def getUserOrFail_def truthyUser_def)
  next
    case False
    with a authenticate_fields [of g env w r w' g'] show ?thesis
      by (auto simp: authenticate_def getUserOrFail_def truthyUser_def)
  qed
next
  assume a: "\<not> authenticationAttempted g \<and> authenticate env w g = (Inl e, w', g') \<and>
      \<not> instanceofAuthenticationException e"
  then have att: "authenticationAttempted g'"
    using authenticate_fields [of g env w "Inl e" w' g'] by simp
  then show "authenticationAttempted g'" .
  from att show "authenticate env2 w2 g' = (getUserOrFail env2 g', w2, g')"
    by (simp add: authenticate_def)
  then show "fst (authenticate env2 w2 g') \<noteq> Inl e"
    using a by (auto simp: getUserOrFail_def split: option.splits)
qed

text \<open>
  An attempted guard with a user; a first call that succeeds and a second one after the
  token table was emptied; and a first call that resolves the user and then fails to
  refresh the token, the configured age being no duration, followed by a second call
  that returns the user.
\<close>

theorem authenticate_once_attempted_witness:
  "authenticate env0 world0 (web\<lparr>authenticationAttempted := True, user := Some ''alice''\<rparr>) =
     (Inr ''alice'', world0, web\<lparr>authenticationAttempted := True, user := Some ''alice''\<rparr>) \<and>
   fst (authenticate env0 world0 web) = Inr ''alice'' \<and>
   fst (authenticate env0 (world0\<lparr>tokens := []\<rparr>) (snd (snd (authenticate env0 world0 web)))) =
     Inr ''alice'' \<and>
   fst (authenticate env0 (world0\<lparr>now := 70000\<rparr>)
          (web\<lparr>rememberMeTokenAge := Some (Str ''soon'')\<rparr>)) =
     Inl (CollaboratorError ''invalid duration'') \<and>
   fst (authenticate env0 world0
          (snd (snd (authenticate env0 (world0\<lparr>now := 70000\<rparr>)
             (web\<lparr>rememberMeTokenAge := Some (Str ''soon'')\<rparr>))))) = Inr ''alice''"
proof -
  let ?g = "web\<lparr>authenticationAttempted := True, user := Some ''alice''\<rparr>"
  let ?w3 = "world0\<lparr>now := 70000\<rparr>"
  let ?g3 = "web\<lparr>rememberMeTokenAge := Some (Str ''soon'')\<rparr>"
  have a: "fst (authenticate env0 world0 web) = Inr ''alice''" "user web = None"
    "userTruthy env0 ''alice''" "authenticationAttempted ?g" "getUserOrFail env0 ?g = Inr ''alice''"
    by (simp_all add: fixtures guard_defs world_defs Let_def)
  have b: "fst (authenticate env0 ?w3 ?g3) = Inl (CollaboratorError ''invalid duration'')"
    "\<not> authenticationAttempted ?g3"
    "getUserOrFail env0 (snd (snd (authenticate env0 ?w3 ?g3))) = Inr ''alice''"
    by (simp_all add: fixtures guard_defs world_defs Let_def)
  from a(4,5) authenticate_once_attempted [of ?g env0 world0 "Inr ''alice''" world0 ?g
     "''alice''" env0 world0 TypeError]
  have 1: "authenticate env0 world0 ?g = (Inr ''alice'', world0, ?g)" by simp
  from a(1-3) authenticate_once_attempted [of web env0 world0 "fst (authenticate env0 world0 web)"
     "fst (snd (authenticate env0 world0 web))" "snd (snd (authenticate env0 world0 web))"
     "''alice''" env0 "world0\<lparr>tokens := []\<rparr>" TypeError]
  have 2: "fst (authenticate env0 (world0\<lparr>tokens := []\<rparr>)
      (snd (snd (authenticate env0 world0 web)))) = Inr ''alice''"
    by (simp add: prod_eq_iff)
  from b authenticate_once_attempted [of ?g3 env0 ?w3 "fst (authenticate env0 ?w3 ?g3)"
     "fst (snd (authenticate env0 ?w3 ?g3))" "snd (snd (authenticate env0 ?w3 ?g3))"
     "''alice''" env0 world0 "CollaboratorError ''invalid duration''"]
  have 3: "fst (authenticate env0 world0 (snd (snd (authenticate env0 ?w3 ?g3)))) = Inr ''alice''"
    by (simp add: prod_eq_iff)
  from 1 a(1) 2 3 b(1) show ?thesis by simp
qed

text \<open>
  The claim as stated speaks of re-raising the failure of the first call. A guard whose
  context has no session fails its first call with the \<open>RuntimeException\<close> of
  \<open>#getSession\<close>, after \<open>authenticationAttempted\<close> was set; the second call fails with
  \<open>E_INVALID_AUTH_SESSION\<close>.
\<close>

theorem authenticate_cached_failure_counterexample:
  "fst (authenticate env0 (world0\<lparr>session := None\<rparr>) web) = Inl (RuntimeException SessionMissing) \<and>
   authenticationAttempted (snd (snd (authenticate env0 (world0\<lparr>session := None\<rparr>) web))) \<and>
   fst (authenticate env0 (fst (snd (authenticate env0 (world0\<lparr>session := None\<rparr>) web)))
          (snd (snd (authenticate env0 (world0\<lparr>session := None\<rparr>) web))))
     = Inl (AuthenticationException E_INVALID_AUTH_SESSION)"
  by (simp add: fixtures guard_defs world_defs Let_def)

subsection \<open>The first call, by way of the cookie\<close>

lemma findRow_series: "findRow sr rows = Some t \<Longrightarrow> series t = sr"
  by (auto simp: findRow_def find_Some_iff)

lemma findRow_update:
  "findRow sr (map (updateRow s t') rows) = map_option (updateRow s t') (findRow sr rows)"
  by (induction rows) (auto simp: findRow_def updateRow_def)

lemma decode_Nil [simp]: "decode [] = None"
  by (simp add: decode_def)

lemma authenticate_first_None:
  assumes "\<not> authenticationAttempted g" "session w = Some s" "loggedInUserId w g = None"
  shows "authenticate env w g =
     authenticateViaRemember env
       (logEffect (SessionGet (sessionKeyName g))
          (logEffect (Emit (AuthenticationAttempted (sessionId s))
             (g\<lparr>authenticationAttempted := True\<rparr>)) w))
       (g\<lparr>authenticationAttempted := True\<rparr>)"
  using assms by (simp add: authenticate_first Let_def emit_def)

lemma authenticate_first_Some:
  assumes "\<not> authenticationAttempted g" "session w = Some s" "loggedInUserId w g = Some i"
  shows "authenticate env w g =
     authenticateViaSession env i
       (logEffect (SessionGet (sessionKeyName g))
          (logEffect (Emit (AuthenticationAttempted (sessionId s))
             (g\<lparr>authenticationAttempted := True\<rparr>)) w))
       (g\<lparr>authenticationAttempted := True\<rparr>)"
  using assms by (simp add: authenticate_first Let_def emit_def)

lemma rememberMeKeyName_attempted [simp]:
  "rememberMeKeyName (g\<lparr>authenticationAttempted := b\<rparr>) = rememberMeKeyName g"
  "sessionKeyName (g\<lparr>authenticationAttempted := b\<rparr>) = sessionKeyName g"
  "tokenAge (g\<lparr>authenticationAttempted := b\<rparr>) = tokenAge g"
  by (simp_all add: rememberMeKeyName_def sessionKeyName_def tokenAge_def)

lemma viaRemember_fails:
  assumes "requestCookies w (rememberMeKeyName g) = Some c"
    "decode c = None \<or> (\<exists>sr v. decode c = Some (sr, v) \<and>
        (case findRow sr (tokens w) of None \<Rightarrow> True
         | Some t \<Rightarrow> isExpired w t \<or> \<not> verify env t v \<or> guard t \<noteq> name g))"
  shows "\<exists>w'. authenticateViaRemember env w g =
            (Inl (AuthenticationException E_INVALID_AUTH_SESSION), w', g) \<and>
          session w' = session w \<and> tokens w' = tokens w"
proof (cases "decode c")
  case None
  with assms(1) show ?thesis
    by (simp add: authenticateViaRemember_def authenticationFailed_def encryptedCookie_def emit_def Let_def)
next
  case (Some p)
  obtain sr v where p: "p = (sr, v)" by (cases p)
  show ?thesis
  proof (cases "findRow sr (tokens w)")
    case None
    with assms(1) Some p show ?thesis
      by (simp add: authenticateViaRemember_def authenticationFailed_def encryptedCookie_def
          getTokenBySeries_def emit_def Let_def)
  next
    case (Some t)
    with assms \<open>decode c = Some p\<close> p
    have "isExpired w t \<or> \<not> verify env t v \<or> guard t \<noteq> name g" by simp
    with assms(1) \<open>decode c = Some p\<close> p Some show ?thesis
      by (auto simp add: authenticateViaRemember_def authenticationFailed_def encryptedCookie_def
          getTokenBySeries_def emit_def Let_def)
  qed
qed

lemma authenticate_remember_fails:
  assumes "\<not> authenticationAttempted g" "session w = Some s" "loggedInUserId w g = None"
    "requestCookies w (rememberMeKeyName g) = Some c"
    "decode c = None \<or> (\<exists>sr v. decode c = Some (sr, v) \<and>
        (case findRow sr (tokens w) of None \<Rightarrow> True
         | Some t \<Rightarrow> isExpired w t \<or> \<not> verify env t v \<or> guard t \<noteq> name g))"
  shows "\<exists>w'. authenticate env w g =
            (Inl (AuthenticationException E_INVALID_AUTH_SESSION), w',
             g\<lparr>authenticationAttempted := True\<rparr>) \<and>
          session w' = session w \<and> tokens w' = tokens w"
proof -
  let ?w2 = "logEffect (SessionGet (sessionKeyName g))
          (logEffect (Emit (AuthenticationAttempted (sessionId s))
             (g\<lparr>authenticationAttempted := True\<rparr>)) w)"
  let ?g1 = "g\<lparr>authenticationAttempted := True\<rparr>"
  have "\<exists>w'. authenticateViaRemember env ?w2 ?g1 =
            (Inl (AuthenticationException E_INVALID_AUTH_SESSION), w', ?g1) \<and>
          session w' = session ?w2 \<and> tokens w' = tokens ?w2"
    using assms(4,5) by (intro viaRemember_fails [where c = c]) (simp_all cong: option.case_cong)
  with authenticate_first_None [OF assms(1-3), of env] show ?thesis by simp
qed

lemma authenticate_remembered:
  assumes "\<not> authenticationAttempted g" "authenticate env w g = (Inr u, w', g')" "viaRemember g'"
  shows "\<exists>s. session w = Some s \<and> loggedInUserId w g = None \<and>
    authenticateViaRemember env
       (logEffect (SessionGet (sessionKeyName g))
          (logEffect (Emit (AuthenticationAttempted (sessionId s))
             (g\<lparr>authenticationAttempted := True\<rparr>)) w))
       (g\<lparr>authenticationAttempted := True\<rparr>) = (Inr u, w', g')"
proof -
  from assms obtain s where s: "session w = Some s"
    by (cases "session w") (auto simp: authenticate_def getSession_def Let_def)
  show ?thesis
  proof (cases "loggedInUserId w g")
    case (Some i)
    from authenticate_first_Some [OF assms(1) s Some, of env] assms(2)
    have "authenticateViaSession env i
       (logEffect (SessionGet (sessionKeyName g))
          (logEffect (Emit (AuthenticationAttempted (sessionId s))
             (g\<lparr>authenticationAttempted := True\<rparr>)) w))
       (g\<lparr>authenticationAttempted := True\<rparr>) = (Inr u, w', g')" by simp
    from viaSession_cases [OF this] assms(3) show ?thesis by simp
  next
    case None
    from authenticate_first_None [OF assms(1) s None, of env] assms(2) s None
    show ?thesis by simp
  qed
qed

lemma authenticate_remembered_inversion:
  assumes "\<not> authenticationAttempted g" "authenticate env w g = (Inr u, w', g')" "viaRemember g'"
  shows "\<exists>(s::session) c sr v t pu.
      session w = Some s \<and> loggedInUserId w g = None \<and>
      requestCookies w (rememberMeKeyName g) = Some c \<and> c \<noteq> [] \<and>
      rememberMeTokenProvider g \<and> decode c = Some (sr, v) \<and> findRow sr (tokens w) = Some t \<and>
      \<not> isExpired w t \<and> verify env t v \<and> guard t = name g \<and>
      findById env (userId t) = Inr (Some pu) \<and> u = getOriginal pu \<and>
      recycle env u t c
        (logEffect (Emit (AuthenticationSucceeded (Suc (sessionId s)) u (Some t))
             (g\<lparr>authenticationAttempted := True, user := Some u, isAuthenticated := True,
                isLoggedOut := False, viaRemember := True\<rparr>))
           (sessionRegenerate (sessionPut (sessionKeyName g) (getId pu)
              (logEffect (FindById (userId t)) (logEffect (GetTokenBySeries sr)
                 (logEffect (ReadCookie (rememberMeKeyName g))
                    (logEffect (SessionGet (sessionKeyName g))
                       (logEffect (Emit (AuthenticationAttempted (sessionId s))
                          (g\<lparr>authenticationAttempted := True\<rparr>)) w))))))))
        (g\<lparr>authenticationAttempted := True, user := Some u, isAuthenticated := True,
           isLoggedOut := False, viaRemember := True\<rparr>) = (Inr u, w', g')"
proof -
  let ?g1 = "g\<lparr>authenticationAttempted := True\<rparr>"
  from authenticate_remembered [OF assms] obtain s :: session where
    s: "session w = Some s" "loggedInUserId w g = None" and
    r: "authenticateViaRemember env
       (logEffect (SessionGet (sessionKeyName g))
          (logEffect (Emit (AuthenticationAttempted (sessionId s)) ?g1) w)) ?g1 = (Inr u, w', g')"
    by blast
  let ?w2 = "logEffect (SessionGet (sessionKeyName g))
          (logEffect (Emit (AuthenticationAttempted (sessionId s)) ?g1) w)"
  from viaRemember_inversion [OF r] obtain c sr v t pu where
    c: "requestCookies ?w2 (rememberMeKeyName ?g1) = Some c" "c \<noteq> []"
      "rememberMeTokenProvider ?g1" "decode c = Some (sr, v)"
      "findRow sr (tokens ?w2) = Some t" "\<not> isExpired ?w2 t" "verify env t v"
      "guard t = name ?g1" "findById env (userId t) = Inr (Some pu)" and u: "u = getOriginal pu"
    by blast
  from viaRemember_success [OF c] r u s(1)
  have "recycle env u t c
        (logEffect (Emit (AuthenticationSucceeded (Suc (sessionId s)) u (Some t))
             (g\<lparr>authenticationAttempted := True, user := Some u, isAuthenticated := True,
                isLoggedOut := False, viaRemember := True\<rparr>))
           (sessionRegenerate (sessionPut (sessionKeyName g) (getId pu)
              (logEffect (FindById (userId t)) (logEffect (GetTokenBySeries sr)
                 (logEffect (ReadCookie (rememberMeKeyName g))
                    (logEffect (SessionGet (sessionKeyName g))
                       (logEffect (Emit (AuthenticationAttempted (sessionId s))
                          (g\<lparr>authenticationAttempted := True\<rparr>)) w))))))))
        (g\<lparr>authenticationAttempted := True, user := Some u, isAuthenticated := True,
           isLoggedOut := False, viaRemember := True\<rparr>) = (Inr u, w', g')"
    by (simp add: Let_def emit_def sessionIdOf_def sessionRegenerate_def sessionPut_def)
  with s c u show ?thesis by simp
qed

text \<open>
  C2. On a first call with a session that holds no user id, a cookie that decodes to
  the series of a stored token whose \<open>guard\<close> is not the name of the authenticating
  guard makes \<open>authenticate\<close> fail with \<open>E_INVALID_AUTH_SESSION\<close>, whatever \<open>verify\<close>
  says of the presented value; the session and the token table stay as they were.
\<close>

theorem authenticate_rejects_other_guard:
  assumes "\<not> authenticationAttempted g" "session w = Some s" "loggedInUserId w g = None"
    "requestCookies w (rememberMeKeyName g) = Some c" "decode c = Some (sr, v)"
    "findRow sr (tokens w) = Some t" "guard t \<noteq> name g"
  shows "\<exists>w'. authenticate env w g =
            (Inl (AuthenticationException E_INVALID_AUTH_SESSION), w',
             g\<lparr>authenticationAttempted := True\<rparr>) \<and>
          session w' = session w \<and> tokens w' = tokens w"
  using assms by (intro authenticate_remember_fails) auto

theorem authenticate_rejects_other_guard_witness:
  "verify env0 tok0 ''v1'' \<and> guard tok0 = ''web'' \<and>
   (\<exists>w'. authenticate env0 (world0\<lparr>requestCookies := [''remember_api'' \<mapsto> ''s1.v1'']\<rparr>)
            (web\<lparr>name := ''api''\<rparr>) =
          (Inl (AuthenticationException E_INVALID_AUTH_SESSION), w',
           web\<lparr>name := ''api'', authenticationAttempted := True\<rparr>) \<and>
        session w' = session world0 \<and> tokens w' = [tok0])"
  using authenticate_rejects_other_guard [of "web\<lparr>name := ''api''\<rparr>"
      "world0\<lparr>requestCookies := [''remember_api'' \<mapsto> ''s1.v1'']\<rparr>"
      "\<lparr>sessionId = 7, sessionData = Map.empty\<rparr>" "''s1.v1''" "''s1''" "''v1''" tok0 env0]
  by (simp add: fixtures loggedInUserId_def rememberMeKeyName_def sessionKeyName_def decode_def
      findRow_def verify_def)

text \<open>
  C3. On a first call with a session that holds no user id, a cookie that decodes to
  the series of a stored token whose \<open>expiresAt\<close> is not later than now makes
  \<open>authenticate\<close> fail with \<open>E_INVALID_AUTH_SESSION\<close>; and a first call that succeeds by
  way of the cookie found a token with \<open>now < expiresAt\<close>.
\<close>

theorem authenticate_rejects_expired:
  "(\<not> authenticationAttempted g \<and> session w = Some s \<and> loggedInUserId w g = None \<and>
    requestCookies w (rememberMeKeyName g) = Some c \<and> decode c = Some (sr, v) \<and>
    findRow sr (tokens w) = Some t \<and> expiresAt t \<le> now w
    \<longrightarrow> (\<exists>w'. authenticate env w g =
            (Inl (AuthenticationException E_INVALID_AUTH_SESSION), w',
             g\<lparr>authenticationAttempted := True\<rparr>) \<and>
          session w' = session w \<and> tokens w' = tokens w)) \<and>
   (\<not> authenticationAttempted g \<and> authenticate env w g = (Inr u, w', g') \<and> viaRemember g'
    \<longrightarrow> (\<exists>c sr v t. requestCookies w (rememberMeKeyName g) = Some c \<and>
           decode c = Some (sr, v) \<and> findRow sr (tokens w) = Some t \<and> now w < expiresAt t))"
proof (intro conjI impI)
  assume a: "\<not> authenticationAttempted g \<and> session w = Some s \<and> loggedInUserId w g = None \<and>
    requestCookies w (rememberMeKeyName g) = Some c \<and> decode c = Some (sr, v) \<and>
    findRow sr (tokens w) = Some t \<and> expiresAt t \<le> now w"
  then have "isExpired w t" by (simp add: isExpired_def)
  with a show "\<exists>w'. authenticate env w g =
            (Inl (AuthenticationException E_INVALID_AUTH_SESSION), w',
             g\<lparr>authenticationAttempted := True\<rparr>) \<and>
          session w' = session w \<and> tokens w' = tokens w"
    by (intro authenticate_remember_fails) auto
next
  assume a: "\<not> authenticationAttempted g \<and> authenticate env w g = (Inr u, w', g') \<and> viaRemember g'"
  then have "\<exists>(s::session) c sr v t. requestCookies w (rememberMeKeyName g) = Some c \<and>
      decode c = Some (sr, v) \<and> findRow sr (tokens w) = Some t \<and> \<not> isExpired w t"
    using authenticate_remembered_inversion [of g env w u w' g'] by blast
  then show "\<exists>c sr v t. requestCookies w (rememberMeKeyName g) = Some c \<and>
           decode c = Some (sr, v) \<and> findRow sr (tokens w) = Some t \<and> now w < expiresAt t"
    by (auto simp: isExpired_def)
qed

theorem authenticate_rejects_expired_witness:
  "(\<exists>w'. authenticate env0 (world0\<lparr>now := 1000000\<rparr>) web =
          (Inl (AuthenticationException E_INVALID_AUTH_SESSION), w',
           web\<lparr>authenticationAttempted := True\<rparr>) \<and>
        session w' = session world0 \<and> tokens w' = [tok0]) \<and>
   fst (authenticate env0 world0 web) = Inr ''alice'' \<and>
   (\<exists>c sr v t. requestCookies world0 (rememberMeKeyName web) = Some c \<and>
      decode c = Some (sr, v) \<and> findRow sr (tokens world0) = Some t \<and> now world0 < expiresAt t)"
proof -
  have ok: "authenticate env0 world0 web =
      (Inr ''alice'', fst (snd (authenticate env0 world0 web)),
       snd (snd (authenticate env0 world0 web))) \<and>
      viaRemember (snd (snd (authenticate env0 world0 web)))"
    by (simp add: fixtures guard_defs world_defs Let_def)
  from authenticate_rejects_expired [of web "world0\<lparr>now := 1000000\<rparr>"
      "\<lparr>sessionId = 7, sessionData = Map.empty\<rparr>" "''s1.v1''" "''s1''" "''v1''" tok0 env0]
  have "\<exists>w'. authenticate env0 (world0\<lparr>now := 1000000\<rparr>) web =
          (Inl (AuthenticationException E_INVALID_AUTH_SESSION), w',
           web\<lparr>authenticationAttempted := True\<rparr>) \<and>
        session w' = session world0 \<and> tokens w' = [tok0]"
    by (simp add: fixtures loggedInUserId_def rememberMeKeyName_def sessionKeyName_def decode_def
      findRow_def)
  moreover from ok authenticate_rejects_expired [of web world0 _ _ _ _ _ env0 "''alice''"
      "fst (snd (authenticate env0 world0 web))" "snd (snd (authenticate env0 world0 web))"]
  have "\<exists>c sr v t. requestCookies world0 (rememberMeKeyName web) = Some c \<and>
      decode c = Some (sr, v) \<and> findRow sr (tokens world0) = Some t \<and> now world0 < expiresAt t"
    by (simp add: web_def)
  moreover from ok have "fst (authenticate env0 world0 web) = Inr ''alice''"
    by (simp add: prod_eq_iff)
  ultimately show ?thesis by simp
qed

subsection \<open>check\<close>

text \<open>
  C6. \<open>check\<close> calls \<open>authenticate\<close> and returns true when it succeeds. When
  \<open>authenticate\<close> raises, \<open>check\<close> returns false if the exception is one of the two
  authentication failures (\<open>E_INVALID_AUTH_SESSION\<close>, \<open>E_INVALID_AUTH_TOKEN\<close>) and raises
  the same exception otherwise; so it returns false only after such a failure. In each
  case the world and the guard are as \<open>authenticate\<close> left them.
\<close>

theorem check_converts_only_auth_failures:
  "(authenticate env w g = (Inr u, w', g') \<longrightarrow> check env w g = (Inr True, w', g')) \<and>
   (authenticate env w g = (Inl e, w', g') \<longrightarrow>
      check env w g =
        (if e = AuthenticationException E_INVALID_AUTH_SESSION \<or>
            e = AuthenticationException E_INVALID_AUTH_TOKEN
         then (Inr False, w', g') else (Inl e, w', g'))) \<and>
   (check env w g = (Inr False, w', g') \<longrightarrow>
      authenticate env w g = (Inl (AuthenticationException E_INVALID_AUTH_SESSION), w', g') \<or>
      authenticate env w g = (Inl (AuthenticationException E_INVALID_AUTH_TOKEN), w', g'))"
proof -
  have kinds: "instanceofAuthenticationException x \<longleftrightarrow>
      x = AuthenticationException E_INVALID_AUTH_SESSION \<or>
      x = AuthenticationException E_INVALID_AUTH_TOKEN" for x
  proof (cases x)
    case (AuthenticationException c)
    then show ?thesis by (cases c) simp_all
  qed simp_all
  show ?thesis
    by (auto simp: check_def kinds split: prod.splits sum.splits if_splits)
qed

text \<open>
  A success, a request without the cookie, a context without a session (a
  configuration error) and a user provider that rejects the lookup (an I/O failure).
\<close>

theorem check_converts_only_auth_failures_witness:
  "fst (check env0 world0 web) = Inr True \<and>
   fst (check env0 (world0\<lparr>requestCookies := Map.empty\<rparr>) web) = Inr False \<and>
   fst (check env0 (world0\<lparr>session := None\<rparr>) web) = Inl (RuntimeException SessionMissing) \<and>
   fst (check env0 (world0\<lparr>session := Some \<lparr>sessionId = 7,
          sessionData = [''auth_web'' \<mapsto> Num 500]\<rparr>\<rparr>) web) = Inl (CollaboratorError ''connection lost'')"
proof -
  let ?w1 = "world0\<lparr>requestCookies := Map.empty\<rparr>"
  let ?w2 = "world0\<lparr>session := None\<rparr>"
  let ?w3 = "world0\<lparr>session := Some \<lparr>sessionId = 7, sessionData = [''auth_web'' \<mapsto> Num 500]\<rparr>\<rparr>"
  have a0: "fst (authenticate env0 world0 web) = Inr ''alice''"
    by (simp add: fixtures guard_defs world_defs Let_def)
  have a1: "fst (authenticate env0 ?w1 web) = Inl (AuthenticationException E_INVALID_AUTH_SESSION)"
    by (simp add: fixtures guard_defs world_defs Let_def)
  have a2: "fst (authenticate env0 ?w2 web) = Inl (RuntimeException SessionMissing)"
    by (simp add: fixtures guard_defs world_defs Let_def)
  have a3: "fst (authenticate env0 ?w3 web) = Inl (CollaboratorError ''connection lost'')"
    by (simp add: fixtures guard_defs world_defs Let_def)
  have c0: "fst (check env0 world0 web) = Inr True"
    using a0 check_converts_only_auth_failures [of env0 world0 web "''alice''"
        "fst (snd (authenticate env0 world0 web))" "snd (snd (authenticate env0 world0 web))"]
    by (simp add: prod_eq_iff)
  have c1: "fst (check env0 ?w1 web) = Inr False"
    using a1 check_converts_only_auth_failures [of env0 ?w1 web _
        "fst (snd (authenticate env0 ?w1 web))" "snd (snd (authenticate env0 ?w1 web))"
        "AuthenticationException E_INVALID_AUTH_SESSION"]
    by (simp add: prod_eq_iff)
  have c2: "fst (check env0 ?w2 web) = Inl (RuntimeException SessionMissing)"
    using a2 check_converts_only_auth_failures [of env0 ?w2 web _
        "fst (snd (authenticate env0 ?w2 web))" "snd (snd (authenticate env0 ?w2 web))"
        "RuntimeException SessionMissing"]
    by (simp add: prod_eq_iff)
  have c3: "fst (check env0 ?w3 web) = Inl (CollaboratorError ''connection lost'')"
    using a3 check_converts_only_auth_failures [of env0 ?w3 web _
        "fst (snd (authenticate env0 ?w3 web))" "snd (snd (authenticate env0 ?w3 web))"
        "CollaboratorError ''connection lost''"]
    by (simp add: prod_eq_iff)
  from c0 c1 c2 c3 show ?thesis by simp
qed

subsection \<open>login\<close>

text \<open>
  C9. \<open>login\<close> with \<open>remember = true\<close> on a guard without a tokens provider, in a context
  with a session, raises the \<open>RuntimeException\<close> of \<open>#getTokenProvider\<close>, and what it
  returns to is a world whose session already holds the user id under the key \<open>auth_\<close>
  followed by the guard's name and has a new identifier: nothing is rolled back. No
  token was created and no cookie set, and the guard's fields are untouched.
\<close>

theorem login_remember_without_provider:
  assumes "\<not> rememberMeTokenProvider g" "createUserForGuard env u = Inr pu" "session w = Some s"
  shows "login env u True w g =
     (Inl (RuntimeException TokensProviderMissing),
      w\<lparr>session := Some \<lparr>sessionId = Suc (sessionId s),
                          sessionData = (sessionData s)(''auth_'' @ name g \<mapsto> getId pu)\<rparr>,
        trace := trace w @ [Emit (LoginAttempted u) g, CreateUserForGuard u,
                            SessionPut (''auth_'' @ name g) (getId pu), SessionRegenerate]\<rparr>,
      g)"
  using assms
  by (simp add: login_def getSession_def getTokenProvider_def Let_def emit_def logEffect_def
      sessionPut_def sessionRegenerate_def sessionKeyName_def)

text \<open>A guard named admin, whose session already holds the id of guard web's user.\<close>

theorem login_remember_without_provider_witness:
  "login env0 ''bob'' True
     (world0\<lparr>session := Some \<lparr>sessionId = 7, sessionData = [''auth_web'' \<mapsto> Num 9]\<rparr>\<rparr>)
     (web\<lparr>name := ''admin'', rememberMeTokenProvider := False\<rparr>) =
     (Inl (RuntimeException TokensProviderMissing),
      world0\<lparr>session := Some \<lparr>sessionId = 8,
                 sessionData = [''auth_web'' \<mapsto> Num 9, ''auth_admin'' \<mapsto> Num 1]\<rparr>,
        trace := [Emit (LoginAttempted ''bob'')
                    (web\<lparr>name := ''admin'', rememberMeTokenProvider := False\<rparr>),
                  CreateUserForGuard ''bob'', SessionPut ''auth_admin'' (Num 1),
                  SessionRegenerate]\<rparr>,
      web\<lparr>name := ''admin'', rememberMeTokenProvider := False\<rparr>)"
  using login_remember_without_provider
      [of "web\<lparr>name := ''admin'', rememberMeTokenProvider := False\<rparr>" env0 "''bob''"
        "\<lparr>getId = Num 1, getOriginal = ''bob''\<rparr>"
        "world0\<lparr>session := Some \<lparr>sessionId = 7, sessionData = [''auth_web'' \<mapsto> Num 9]\<rparr>\<rparr>"
        "\<lparr>sessionId = 7, sessionData = [''auth_web'' \<mapsto> Num 9]\<rparr>"]
  by (simp add: fixtures)

subsection \<open>logout\<close>

text \<open>
  C10. \<open>logout\<close> never changes a field of the guard. In a context with a session it
  returns normally, forgets the session key, clears the cookie, emits \<open>logged_out\<close> (with
  the user, when one is set and truthy) and
  reads the request's cookie, in this order; it then deletes the rows of the series the
  cookie decodes to, and it stops there without touching the table when the cookie is
  absent or empty, no provider is registered, or the cookie does not decode.
\<close>

theorem logout_frame:
  "snd (snd (logout env w g)) = g \<and>
   (session w = Some s \<longrightarrow>
      (\<exists>w'. logout env w g = (Inr (), w', g) \<and>
         session w' = Some (s\<lparr>sessionData := (sessionData s)(sessionKeyName g := None)\<rparr>) \<and>
         (let cleared = trace w @
                [SessionForget (sessionKeyName g), ClearCookie (rememberMeKeyName g),
                 Emit (LoggedOut (truthyUser env g) (sessionId s)) g, ReadCookie (rememberMeKeyName g)]
          in case requestCookies w (rememberMeKeyName g) of
               None \<Rightarrow> tokens w' = tokens w \<and> trace w' = cleared
             | Some c \<Rightarrow>
                 (case (if c = [] \<or> \<not> rememberMeTokenProvider g then None else decode c) of
                    None \<Rightarrow> tokens w' = tokens w \<and> trace w' = cleared
                  | Some (sr, v) \<Rightarrow>
                      tokens w' = filter (\<lambda>r. series r \<noteq> sr) (tokens w) \<and>
                      trace w' = cleared @ [DeleteTokenBySeries sr]))))"
  by (auto simp: logout_def getSession_def Let_def world_defs split: option.splits)

theorem logout_frame_witness:
  "(\<exists>w'. logout env0 world0 (web\<lparr>isAuthenticated := True, user := Some ''alice''\<rparr>) =
           (Inr (), w', web\<lparr>isAuthenticated := True, user := Some ''alice''\<rparr>) \<and>
         tokens w' = [] \<and>
         trace w' = [SessionForget ''auth_web'', ClearCookie ''remember_web'',
                     Emit (LoggedOut (Some ''alice'') 7)
                       (web\<lparr>isAuthenticated := True, user := Some ''alice''\<rparr>),
                     ReadCookie ''remember_web'', DeleteTokenBySeries ''s1'']) \<and>
   (\<exists>w'. logout env0 (world0\<lparr>requestCookies := [''remember_web'' \<mapsto> ''garbage'']\<rparr>) web =
           (Inr (), w', web) \<and> tokens w' = [tok0])"
  using logout_frame [of env0 world0 "web\<lparr>isAuthenticated := True, user := Some ''alice''\<rparr>"
      "\<lparr>sessionId = 7, sessionData = Map.empty\<rparr>"]
    logout_frame [of env0 "world0\<lparr>requestCookies := [''remember_web'' \<mapsto> ''garbage'']\<rparr>" web
      "\<lparr>sessionId = 7, sessionData = Map.empty\<rparr>"]
  by (auto simp add: fixtures rememberMeKeyName_def sessionKeyName_def decode_def Let_def
      truthyUser_def)

subsection \<open>When a first call fails\<close>







subsection \<open>The cookie's encoding\<close>

lemma decode_encode:
  assumes "validSeries s" "v \<noteq> []"
  shows "decode (encode s v) = Some (s, v)"
proof -
  let ?P = "\<lambda>x. x \<noteq> CHR ''.''"
  from assms have all: "\<forall>x\<in>set s. ?P x" and ne: "s \<noteq> []"
    by (auto simp: validSeries_def)
  from all have "takeWhile ?P (s @ CHR ''.'' # v) = s"
    by (simp add: takeWhile_tail takeWhile_eq_all_conv)
  moreover from all have "dropWhile ?P (s @ CHR ''.'' # v) = CHR ''.'' # v"
    by (simp add: dropWhile_append3 dropWhile_eq_Nil_conv)
  ultimately show ?thesis using ne assms(2)
    by (simp add: decode_def encode_def)
qed

lemma decode_Some:
  assumes "decode c = Some (s, v)"
  shows "validSeries s \<and> v \<noteq> [] \<and> c = encode s v"
proof -
  let ?P = "\<lambda>x. x \<noteq> CHR ''.''"
  from assms obtain x where r: "dropWhile ?P c = x # v" and s: "s = takeWhile ?P c"
    and ne: "s \<noteq> []" "v \<noteq> []"
    by (auto simp: decode_def Let_def split: list.splits if_splits)
  from r have "x = CHR ''.''"
    using hd_dropWhile [of ?P c] by auto
  moreover have "c = takeWhile ?P c @ dropWhile ?P c" by simp
  moreover have "CHR ''.'' \<notin> set (takeWhile ?P c)"
    using set_takeWhileD by fastforce
  ultimately show ?thesis using r s ne
    by (simp add: validSeries_def encode_def)
qed

text \<open>
  C7. \<open>decode\<close> recovers the series and the value from \<open>encode\<close> of a series in series
  format and a value that is not empty; it yields null, as a value of its result type,
  for every string that is not such an encoding; and on a first call with a session that
  holds no user id, a cookie that \<open>decode\<close> maps to null makes \<open>authenticate\<close> fail with
  \<open>E_INVALID_AUTH_SESSION\<close>.
\<close>

theorem decode_roundtrip_and_null:
  "(validSeries s \<and> v \<noteq> [] \<longrightarrow> decode (encode s v) = Some (s, v)) \<and>
   ((\<nexists>s' v'. validSeries s' \<and> v' \<noteq> [] \<and> c = encode s' v') \<longrightarrow> decode c = None) \<and>
   (\<not> authenticationAttempted g \<and> session w = Some ss \<and> loggedInUserId w g = None \<and>
    requestCookies w (rememberMeKeyName g) = Some c' \<and> decode c' = None
    \<longrightarrow> (\<exists>w'. authenticate env w g =
            (Inl (AuthenticationException E_INVALID_AUTH_SESSION), w',
             g\<lparr>authenticationAttempted := True\<rparr>) \<and>
          session w' = session w \<and> tokens w' = tokens w))"
proof (intro conjI impI)
  assume "validSeries s \<and> v \<noteq> []"
  then show "decode (encode s v) = Some (s, v)" by (simp add: decode_encode)
next
  assume n: "\<nexists>s' v'. validSeries s' \<and> v' \<noteq> [] \<and> c = encode s' v'"
  show "decode c = None"
  proof (cases "decode c")
    case (Some p)
    then have "decode c = Some (fst p, snd p)" by simp
    from decode_Some [OF this] n show ?thesis by blast
  qed simp
next
  assume "\<not> authenticationAttempted g \<and> session w = Some ss \<and> loggedInUserId w g = None \<and>
    requestCookies w (rememberMeKeyName g) = Some c' \<and> decode c' = None"
  then show "\<exists>w'. authenticate env w g =
            (Inl (AuthenticationException E_INVALID_AUTH_SESSION), w',
             g\<lparr>authenticationAttempted := True\<rparr>) \<and>
          session w' = session w \<and> tokens w' = tokens w"
    by (intro authenticate_remember_fails) auto
qed

theorem decode_roundtrip_and_null_witness:
  "decode (encode ''s1'' ''v1'') = Some (''s1'', ''v1'') \<and>
   decode ''foobar'' = None \<and>
   (\<exists>w'. authenticate env0 (world0\<lparr>requestCookies := [''remember_web'' \<mapsto> ''foobar'']\<rparr>) web =
            (Inl (AuthenticationException E_INVALID_AUTH_SESSION), w',
             web\<lparr>authenticationAttempted := True\<rparr>) \<and>
          session w' = session world0 \<and> tokens w' = tokens world0)"
proof -
  have n: "\<nexists>s' v'. validSeries s' \<and> v' \<noteq> [] \<and> ''foobar'' = encode s' v'"
  proof
    assume "\<exists>s' v'. validSeries s' \<and> v' \<noteq> [] \<and> ''foobar'' = encode s' v'"
    then obtain s' v' where e: "''foobar'' = encode s' v'" by blast
    have "CHR ''.'' \<in> set (encode s' v')" by (simp add: encode_def)
    then have "CHR ''.'' \<in> set ''foobar''" by (simp only: e [symmetric])
    then show False by simp
  qed
  note T = decode_roundtrip_and_null [of "''s1''" "''v1''" "''foobar''" web
      "world0\<lparr>requestCookies := [''remember_web'' \<mapsto> ''foobar'']\<rparr>"
      "\<lparr>sessionId = 7, sessionData = Map.empty\<rparr>" "''foobar''" env0]
  have d: "decode ''foobar'' = None"
    using n T by blast
  have "decode (encode ''s1'' ''v1'') = Some (''s1'', ''v1'')"
    using T by (simp add: validSeries_def)
  moreover have "\<exists>w'. authenticate env0 (world0\<lparr>requestCookies := [''remember_web'' \<mapsto> ''foobar'']\<rparr>) web =
            (Inl (AuthenticationException E_INVALID_AUTH_SESSION), w',
             web\<lparr>authenticationAttempted := True\<rparr>) \<and>
          session w' = session world0 \<and> tokens w' = tokens world0"
    using d T
    by (simp add: fixtures loggedInUserId_def rememberMeKeyName_def sessionKeyName_def)
  ultimately show ?thesis using d by simp
qed

subsection \<open>A success by way of the cookie\<close>

lemma updateRow_tokenValue [simp]: "updateRow s (t\<lparr>tokenValue := x\<rparr>) = updateRow s t"
  by (rule ext) (simp add: updateRow_def)

lemma recycle_success:
  assumes "recycle env u t c w g = (Inr u', w', g')"
  shows "if utc env (localTime env (updatedAt t) + 60 * 1000) < now w
     then \<exists>ms. parseAge env (tokenAge g) = Some ms \<and>
            w' = w\<lparr>drawn := Suc (drawn w),
                   tokens := map (updateRow (series t)
                               (t\<lparr>hash := digest env (random env (drawn w)),
                                  expiresAt := now w + ms, updatedAt := now w\<rparr>)) (tokens w),
                   trace := trace w @
                     [UpdateTokenBySeries (series t)
                        (t\<lparr>tokenValue := Some (encode (series t) (random env (drawn w))),
                           hash := digest env (random env (drawn w)),
                           expiresAt := now w + ms, updatedAt := now w\<rparr>),
                      SetCookie (rememberMeKeyName g) (encode (series t) (random env (drawn w)))
                        (tokenAge g)]\<rparr>
     else w' = w\<lparr>trace := trace w @ [SetCookie (rememberMeKeyName g) c (tokenAge g)]\<rparr>"
  using assms
  by (auto simp: recycle_def setSeconds_getSeconds refresh_def draw_def Let_def
      updateTokenBySeries_def
      setEncryptedCookie_def logEffect_def updateRow_def
      split: option.splits if_splits)

lemma authenticate_remembered_recycle:
  assumes "\<not> authenticationAttempted g" "authenticate env w g = (Inr u, w', g')" "viaRemember g'"
  shows "\<exists>(s::session) c sr v t pu w5.
      session w = Some s \<and> requestCookies w (rememberMeKeyName g) = Some c \<and>
      decode c = Some (sr, v) \<and> findRow sr (tokens w) = Some t \<and>
      findById env (userId t) = Inr (Some pu) \<and> u = getOriginal pu \<and>
      session w5 = Some \<lparr>sessionId = Suc (sessionId s),
                          sessionData = (sessionData s)(sessionKeyName g \<mapsto> getId pu)\<rparr> \<and>
      tokens w5 = tokens w \<and> now w5 = now w \<and> drawn w5 = drawn w \<and>
      trace w5 = trace w @
        [Emit (AuthenticationAttempted (sessionId s)) (g\<lparr>authenticationAttempted := True\<rparr>),
         SessionGet (sessionKeyName g), ReadCookie (rememberMeKeyName g), GetTokenBySeries sr,
         FindById (userId t), SessionPut (sessionKeyName g) (getId pu), SessionRegenerate,
         Emit (AuthenticationSucceeded (Suc (sessionId s)) u (Some t))
           (g\<lparr>authenticationAttempted := True, user := Some u, isAuthenticated := True,
              isLoggedOut := False, viaRemember := True\<rparr>)] \<and>
      recycle env u t c w5
        (g\<lparr>authenticationAttempted := True, user := Some u, isAuthenticated := True,
           isLoggedOut := False, viaRemember := True\<rparr>) = (Inr u, w', g')"
proof -
  from authenticate_remembered_inversion [OF assms] obtain s :: session and c sr v t pu where
    c: "session w = Some s" "requestCookies w (rememberMeKeyName g) = Some c"
      "decode c = Some (sr, v)" "findRow sr (tokens w) = Some t"
      "findById env (userId t) = Inr (Some pu)" "u = getOriginal pu" and
    r: "recycle env u t c
        (logEffect (Emit (AuthenticationSucceeded (Suc (sessionId s)) u (Some t))
             (g\<lparr>authenticationAttempted := True, user := Some u, isAuthenticated := True,
                isLoggedOut := False, viaRemember := True\<rparr>))
           (sessionRegenerate (sessionPut (sessionKeyName g) (getId pu)
              (logEffect (FindById (userId t)) (logEffect (GetTokenBySeries sr)
                 (logEffect (ReadCookie (rememberMeKeyName g))
                    (logEffect (SessionGet (sessionKeyName g))
                       (logEffect (Emit (AuthenticationAttempted (sessionId s))
                          (g\<lparr>authenticationAttempted := True\<rparr>)) w))))))))
        (g\<lparr>authenticationAttempted := True, user := Some u, isAuthenticated := True,
           isLoggedOut := False, viaRemember := True\<rparr>) = (Inr u, w', g')"
    by blast
  let ?w5 = "logEffect (Emit (AuthenticationSucceeded (Suc (sessionId s)) u (Some t))
             (g\<lparr>authenticationAttempted := True, user := Some u, isAuthenticated := True,
                isLoggedOut := False, viaRemember := True\<rparr>))
           (sessionRegenerate (sessionPut (sessionKeyName g) (getId pu)
              (logEffect (FindById (userId t)) (logEffect (GetTokenBySeries sr)
                 (logEffect (ReadCookie (rememberMeKeyName g))
                    (logEffect (SessionGet (sessionKeyName g))
                       (logEffect (Emit (AuthenticationAttempted (sessionId s))
                          (g\<lparr>authenticationAttempted := True\<rparr>)) w)))))))"
  have "session ?w5 = Some \<lparr>sessionId = Suc (sessionId s),
                          sessionData = (sessionData s)(sessionKeyName g \<mapsto> getId pu)\<rparr>"
    "tokens ?w5 = tokens w" "now ?w5 = now w" "drawn ?w5 = drawn w"
    "trace ?w5 = trace w @
        [Emit (AuthenticationAttempted (sessionId s)) (g\<lparr>authenticationAttempted := True\<rparr>),
         SessionGet (sessionKeyName g), ReadCookie (rememberMeKeyName g), GetTokenBySeries sr,
         FindById (userId t), SessionPut (sessionKeyName g) (getId pu), SessionRegenerate,
         Emit (AuthenticationSucceeded (Suc (sessionId s)) u (Some t))
           (g\<lparr>authenticationAttempted := True, user := Some u, isAuthenticated := True,
              isLoggedOut := False, viaRemember := True\<rparr>)]"
    using c(1) by (simp_all add: sessionRegenerate_def sessionPut_def)
  with c r show ?thesis by blast
qed

text \<open>
  What lines 996 to 1017 do on a first call that succeeds by way of the cookie, for the
  token \<open>t\<close> found under the cookie's series. The token is refreshed exactly when
  \<open>updatedAt t\<close>, taken to local time, moved on by 60 seconds and taken back, lies
  before now. Then the rows of that series take the hash of a newly drawn secret, a new
  \<open>expiresAt\<close> and \<open>updatedAt = now\<close>, the lookup by the same series finds the refreshed
  row, and the last effect sets the cookie to the encoding of the series and the new
  secret. Otherwise the table is unchanged and the last effect sets the cookie to the
  value it came with.
\<close>

lemma authenticate_rotation_policy:
  assumes "\<not> authenticationAttempted g" "authenticate env w g = (Inr u, w', g')" "viaRemember g'"
  shows "\<exists>c sr v t. requestCookies w (rememberMeKeyName g) = Some c \<and> decode c = Some (sr, v) \<and>
      findRow sr (tokens w) = Some t \<and> series t = sr \<and>
      (if utc env (localTime env (updatedAt t) + 60 * 1000) < now w
       then \<exists>ms. parseAge env (tokenAge g) = Some ms \<and>
              (let secret = random env (drawn w);
                   t' = t\<lparr>hash := digest env secret, expiresAt := now w + ms,
                          updatedAt := now w\<rparr>
               in tokens w' = map (updateRow sr t') (tokens w) \<and>
                  findRow sr (tokens w') = Some t' \<and>
                  last (trace w') =
                    SetCookie (rememberMeKeyName g) (encode sr secret) (tokenAge g))
       else tokens w' = tokens w \<and>
            last (trace w') = SetCookie (rememberMeKeyName g) c (tokenAge g))"
proof -
  let ?g5 = "g\<lparr>authenticationAttempted := True, user := Some u, isAuthenticated := True,
           isLoggedOut := False, viaRemember := True\<rparr>"
  from authenticate_remembered_recycle [OF assms] obtain c sr v t w5
    where c: "requestCookies w (rememberMeKeyName g) = Some c" "decode c = Some (sr, v)"
      "findRow sr (tokens w) = Some t"
    and w5: "tokens w5 = tokens w" "now w5 = now w" "drawn w5 = drawn w"
    and r: "recycle env u t c w5 ?g5 = (Inr u, w', g')"
    by blast
  have g5: "rememberMeKeyName ?g5 = rememberMeKeyName g" "tokenAge ?g5 = tokenAge g"
    by (simp_all add: rememberMeKeyName_def tokenAge_def)
  have sr: "series t = sr" using c(3) by (rule findRow_series)
  have upd: "updateRow sr x t = t\<lparr>hash := hash x, expiresAt := expiresAt x, updatedAt := updatedAt x\<rparr>" for x
    using sr by (simp add: updateRow_def)
  show ?thesis
  proof (cases "utc env (localTime env (updatedAt t) + 60 * 1000) < now w")
    case True
    with recycle_success [OF r] w5 g5 sr obtain ms where
      ms: "parseAge env (tokenAge g) = Some ms" and
      w': "w' = w5\<lparr>drawn := Suc (drawn w),
                   tokens := map (updateRow sr
                               (t\<lparr>hash := digest env (random env (drawn w)),
                                  expiresAt := now w + ms, updatedAt := now w\<rparr>)) (tokens w),
                   trace := trace w5 @
                     [UpdateTokenBySeries sr
                        (t\<lparr>tokenValue := Some (encode sr (random env (drawn w))),
                           hash := digest env (random env (drawn w)),
                           expiresAt := now w + ms, updatedAt := now w\<rparr>),
                      SetCookie (rememberMeKeyName g) (encode sr (random env (drawn w)))
                        (tokenAge g)]\<rparr>"
      by auto
    from w' have "tokens w' = map (updateRow sr
                               (t\<lparr>hash := digest env (random env (drawn w)),
                                  expiresAt := now w + ms, updatedAt := now w\<rparr>)) (tokens w)"
      and "last (trace w') = SetCookie (rememberMeKeyName g) (encode sr (random env (drawn w)))
                        (tokenAge g)"
      by simp_all
    with True c sr ms show ?thesis
      by (simp add: Let_def findRow_update upd)
  next
    case False
    with recycle_success [OF r] w5 g5
    have "w' = w5\<lparr>trace := trace w5 @ [SetCookie (rememberMeKeyName g) c (tokenAge g)]\<rparr>"
      by simp
    then have "tokens w' = tokens w"
      "last (trace w') = SetCookie (rememberMeKeyName g) c (tokenAge g)"
      using w5 by simp_all
    with False c sr show ?thesis by simp
  qed
qed

text \<open>
  C1. The claim has the token rotated if and only if now is later than \<open>updatedAt\<close> plus
  60 seconds, as the comment above line 996 has it (older than 1 minute). The code
  adds the 60 seconds with \<open>setSeconds\<close>, on local time. On a host in America/New_York,
  a token updated at 06:30:00 UTC on 2023-11-05, in the hour that local time repeats,
  is rotated when presented 30 seconds later: the new hash is stored and the cookie
  carries the new value. A token updated at 05:59:30 UTC, half a minute before the
  clocks go back, is not rotated when presented 61 seconds later: the row is unchanged
  and the cookie carries the value it came with.
\<close>

theorem authenticate_rotation_across_dst:
  "now worldNY1 = updatedAt tokNY1 + 30 * 1000 \<and>
   fst (authenticate envNY worldNY1 web) = Inr ''alice'' \<and>
   tokens (fst (snd (authenticate envNY worldNY1 web))) =
     [tokNY1\<lparr>hash := ''r'', expiresAt := now worldNY1 + 63072000000,
             updatedAt := now worldNY1\<rparr>] \<and>
   last (trace (fst (snd (authenticate envNY worldNY1 web)))) =
     SetCookie ''remember_web'' ''s1.r'' (Str ''2years'') \<and>
   now worldNY2 = updatedAt tokNY2 + 61 * 1000 \<and>
   fst (authenticate envNY worldNY2 web) = Inr ''alice'' \<and>
   tokens (fst (snd (authenticate envNY worldNY2 web))) = [tokNY2] \<and>
   last (trace (fst (snd (authenticate envNY worldNY2 web)))) =
     SetCookie ''remember_web'' ''s1.v1'' (Str ''2years'')"
  by (simp add: envNY_def worldNY1_def worldNY2_def tokNY1_def tokNY2_def fixtures guard_defs
      world_defs Let_def)

lemma authenticate_cookie_path:
  assumes "\<not> authenticationAttempted g" "loggedInUserId w g = None"
    "authenticate env w g = (Inr u, w', g')"
  shows "viaRemember g'"
proof -
  from assms(1,3) obtain s where s: "session w = Some s"
    by (cases "session w") (auto simp: authenticate_def getSession_def Let_def)
  from authenticate_first_None [OF assms(1) s assms(2), of env] assms(3)
  have "authenticateViaRemember env
       (logEffect (SessionGet (sessionKeyName g))
          (logEffect (Emit (AuthenticationAttempted (sessionId s))
             (g\<lparr>authenticationAttempted := True\<rparr>)) w))
       (g\<lparr>authenticationAttempted := True\<rparr>) = (Inr u, w', g')"
    by simp
  from viaRemember_fields [OF this] show ?thesis by simp
qed

text \<open>
  C8. When a first call that finds no user id in the session succeeds, it has done so by
  way of the cookie: it puts the id of the resolved user under the key \<open>auth_\<close> followed
  by the guard's name and regenerates the session before it emits
  \<open>authentication_succeeded\<close>, and the fields of the guard at that emission are those it
  returns with: \<open>isAuthenticated\<close> and \<open>viaRemember\<close> are true and \<open>user\<close> is the resolved
  user. Only the cookie is set, and the token updated, after the event.
\<close>

theorem authenticate_remember_regenerates_session:
  assumes "\<not> authenticationAttempted g" "loggedInUserId w g = None"
    "authenticate env w g = (Inr u, w', g')"
  shows "\<exists>(s::session) sr t pu rest.
      session w = Some s \<and> findById env (userId t) = Inr (Some pu) \<and> u = getOriginal pu \<and>
      session w' = Some \<lparr>sessionId = Suc (sessionId s),
                          sessionData = (sessionData s)(''auth_'' @ name g \<mapsto> getId pu)\<rparr> \<and>
      isAuthenticated g' \<and> viaRemember g' \<and> user g' = Some u \<and>
      trace w' = trace w @
        [Emit (AuthenticationAttempted (sessionId s)) (g\<lparr>authenticationAttempted := True\<rparr>),
         SessionGet (''auth_'' @ name g), ReadCookie (''remember_'' @ name g),
         GetTokenBySeries sr, FindById (userId t),
         SessionPut (''auth_'' @ name g) (getId pu), SessionRegenerate,
         Emit (AuthenticationSucceeded (Suc (sessionId s)) u (Some t)) g'] @ rest \<and>
      ((\<exists>k x a. rest = [SetCookie k x a]) \<or>
       (\<exists>k x a t'. rest = [UpdateTokenBySeries (series t) t', SetCookie k x a]))"
proof -
  let ?g5 = "g\<lparr>authenticationAttempted := True, user := Some u, isAuthenticated := True,
           isLoggedOut := False, viaRemember := True\<rparr>"
  have via: "viaRemember g'" using assms by (rule authenticate_cookie_path)
  from authenticate_remembered_recycle [OF assms(1,3) via] obtain s :: session and c sr t pu w5
    where c: "session w = Some s" "findById env (userId t) = Inr (Some pu)" "u = getOriginal pu"
    and w5: "session w5 = Some \<lparr>sessionId = Suc (sessionId s),
                          sessionData = (sessionData s)(sessionKeyName g \<mapsto> getId pu)\<rparr>"
      "trace w5 = trace w @
        [Emit (AuthenticationAttempted (sessionId s)) (g\<lparr>authenticationAttempted := True\<rparr>),
         SessionGet (sessionKeyName g), ReadCookie (rememberMeKeyName g), GetTokenBySeries sr,
         FindById (userId t), SessionPut (sessionKeyName g) (getId pu), SessionRegenerate,
         Emit (AuthenticationSucceeded (Suc (sessionId s)) u (Some t)) ?g5]"
    and r: "recycle env u t c w5 ?g5 = (Inr u, w', g')"
    by blast
  from recycle_cases [OF r] have g': "g' = ?g5" by simp
  have "session w' = session w5 \<and>
      ((\<exists>k x a. trace w' = trace w5 @ [SetCookie k x a]) \<or>
       (\<exists>k x a t'. trace w' = trace w5 @ [UpdateTokenBySeries (series t) t', SetCookie k x a]))"
  proof (cases "utc env (localTime env (updatedAt t) + 60 * 1000) < now w5")
    case True
    with recycle_success [OF r] show ?thesis by auto
  next
    case False
    with recycle_success [OF r] show ?thesis by auto
  qed
  with c w5 g' show ?thesis
    by (auto simp: sessionKeyName_def rememberMeKeyName_def)
qed

text \<open>
  A guard named api, whose session already holds the id of guard web's user, with the
  cookie \<open>remember_api\<close> of a token minted for api.
\<close>

theorem authenticate_remember_regenerates_session_witness:
  "fst (authenticate env0
          (world0\<lparr>session := Some \<lparr>sessionId = 7, sessionData = [''auth_web'' \<mapsto> Num 9]\<rparr>,
                  requestCookies := [''remember_api'' \<mapsto> ''s1.v1''],
                  tokens := [tok0\<lparr>guard := ''api''\<rparr>]\<rparr>)
          (web\<lparr>name := ''api''\<rparr>)) = Inr ''alice'' \<and>
   (\<exists>sr t pu rest w' g'.
      w' = fst (snd (authenticate env0
          (world0\<lparr>session := Some \<lparr>sessionId = 7, sessionData = [''auth_web'' \<mapsto> Num 9]\<rparr>,
                  requestCookies := [''remember_api'' \<mapsto> ''s1.v1''],
                  tokens := [tok0\<lparr>guard := ''api''\<rparr>]\<rparr>)
          (web\<lparr>name := ''api''\<rparr>))) \<and>
      g' = snd (snd (authenticate env0
          (world0\<lparr>session := Some \<lparr>sessionId = 7, sessionData = [''auth_web'' \<mapsto> Num 9]\<rparr>,
                  requestCookies := [''remember_api'' \<mapsto> ''s1.v1''],
                  tokens := [tok0\<lparr>guard := ''api''\<rparr>]\<rparr>)
          (web\<lparr>name := ''api''\<rparr>))) \<and>
      findById env0 (userId t) = Inr (Some pu) \<and> ''alice'' = getOriginal pu \<and>
      session w' = Some \<lparr>sessionId = 8,
              sessionData = [''auth_web'' \<mapsto> Num 9, ''auth_api'' \<mapsto> getId pu]\<rparr> \<and>
      isAuthenticated g' \<and> viaRemember g' \<and> user g' = Some ''alice'' \<and>
      trace w' =
        [Emit (AuthenticationAttempted 7) (web\<lparr>name := ''api'', authenticationAttempted := True\<rparr>),
         SessionGet ''auth_api'', ReadCookie ''remember_api'', GetTokenBySeries sr,
         FindById (userId t), SessionPut ''auth_api'' (getId pu), SessionRegenerate,
         Emit (AuthenticationSucceeded 8 ''alice'' (Some t)) g'] @ rest)"
proof -
  let ?w = "world0\<lparr>session := Some \<lparr>sessionId = 7, sessionData = [''auth_web'' \<mapsto> Num 9]\<rparr>,
                  requestCookies := [''remember_api'' \<mapsto> ''s1.v1''],
                  tokens := [tok0\<lparr>guard := ''api''\<rparr>]\<rparr>"
  let ?g = "web\<lparr>name := ''api''\<rparr>"
  let ?w' = "fst (snd (authenticate env0 ?w ?g))"
  let ?g' = "snd (snd (authenticate env0 ?w ?g))"
  have a: "authenticate env0 ?w ?g = (Inr ''alice'', ?w', ?g')"
    by (simp add: fixtures guard_defs world_defs Let_def)
  have k: "\<not> authenticationAttempted ?g" "loggedInUserId ?w ?g = None"
    "session ?w = Some \<lparr>sessionId = 7, sessionData = [''auth_web'' \<mapsto> Num 9]\<rparr>"
    "trace ?w = []" "name ?g = ''api''"
    by (simp_all add: fixtures loggedInUserId_def sessionKeyName_def)
  from authenticate_remember_regenerates_session [OF k(1,2) a]
  obtain s :: session and sr t pu rest where
    f: "session ?w = Some s" "findById env0 (userId t) = Inr (Some pu)"
      "''alice'' = getOriginal pu"
      "session ?w' = Some \<lparr>sessionId = Suc (sessionId s),
                          sessionData = (sessionData s)(''auth_'' @ name ?g \<mapsto> getId pu)\<rparr>"
      "isAuthenticated ?g'" "viaRemember ?g'" "user ?g' = Some ''alice''"
      "trace ?w' = trace ?w @
        [Emit (AuthenticationAttempted (sessionId s)) (?g\<lparr>authenticationAttempted := True\<rparr>),
         SessionGet (''auth_'' @ name ?g), ReadCookie (''remember_'' @ name ?g),
         GetTokenBySeries sr, FindById (userId t),
         SessionPut (''auth_'' @ name ?g) (getId pu), SessionRegenerate,
         Emit (AuthenticationSucceeded (Suc (sessionId s)) ''alice'' (Some t)) ?g'] @ rest"
    by blast
  from f(1) k(3) have s: "s = \<lparr>sessionId = 7, sessionData = [''auth_web'' \<mapsto> Num 9]\<rparr>"
    by simp
  from f(4) s k(5)
  have 1: "session ?w' = Some \<lparr>sessionId = 8,
              sessionData = [''auth_web'' \<mapsto> Num 9, ''auth_api'' \<mapsto> getId pu]\<rparr>"
    by simp
  from f(8) s k(4,5)
  have 2: "trace ?w' =
        [Emit (AuthenticationAttempted 7) (web\<lparr>name := ''api'', authenticationAttempted := True\<rparr>),
         SessionGet ''auth_api'', ReadCookie ''remember_api'', GetTokenBySeries sr,
         FindById (userId t), SessionPut ''auth_api'' (getId pu), SessionRegenerate,
         Emit (AuthenticationSucceeded 8 ''alice'' (Some t)) ?g'] @ rest"
    by simp
  from a have 3: "fst (authenticate env0 ?w ?g) = Inr ''alice''"
    by (simp add: prod_eq_iff)
  from f(2,3,5,6,7) 1 2 3 show ?thesis by blast
qed

end
